theory Spec2Isabelle
  imports Main "HOL-Library.Multiset"
begin

section \<open>Obs: observables with deferred updates and dependency ordering\<close>

subsection \<open>Values, property bags and evaluation bodies\<close>

text \<open>
  A JavaScript value held by an observable. \<open>Val\<close> carries an application value of an
  arbitrary type; \<open>Undefined\<close> is the value of a computed observable before its first
  evaluation, \<open>Null\<close> is what \<open>Obs.dispose\<close> stores, and \<open>Str\<close> is needed for the
  marker string that \<open>Obs.subscribe\<close> stores in a subscription.
\<close>

datatype 'v jsval = Undefined | Null | Str string | Val 'v

text \<open>
  \<open>obs.dependencies\<close>, \<open>obs.dependents\<close> and \<open>currentDependencies\<close> are objects whose
  property names are observable identifiers (positive integers handed out by \<open>nextID++\<close>).
  A \<open>for (id in object)\<close> loop enumerates integer-like property names in ascending numeric
  order, so such an object is an association list kept sorted by identifier. Assigning to
  an existing property keeps its place; assigning \<open>null\<close> keeps the property with the value
  \<open>None\<close>.
\<close>

type_synonym 'a obj = "(nat \<times> 'a) list"

fun obj_set :: "nat \<Rightarrow> 'a \<Rightarrow> 'a obj \<Rightarrow> 'a obj" where
  "obj_set k v [] = [(k, v)]"
| "obj_set k v ((k', v') # r) =
     (if k < k' then (k, v) # (k', v') # r
      else if k = k' then (k, v) # r
      else (k', v') # obj_set k v r)"

text \<open>
  The function handed to \<open>Obs.fn\<close> (and the action handed to \<open>Obs.subscribe\<close>) is a
  closure that reads observables and then returns a value or throws. It is represented by
  the tree of its interactions with the observables: \<open>Read x k\<close> calls \<open>x()\<close> and continues
  with \<open>k\<close> applied to the value read, \<open>Peek x k\<close> does the same through \<open>Obs.peek(x)\<close>,
  \<open>Return v\<close> returns and \<open>Throw e\<close> throws. Bodies that assign to observables or create
  observables while they run are not covered by this representation.
\<close>

datatype 'v body =
    Return "'v jsval"
  | Throw string
  | Read nat "'v jsval \<Rightarrow> 'v body"
  | Peek nat "'v jsval \<Rightarrow> 'v body"

datatype 'v obsfn = Computed "'v body" | Subscription "'v body"

text \<open>
  An observable is a function object with properties. It is addressed by its identifier
  (\<open>obsid\<close>), which is its address in \<open>store\<close>. \<open>obs_eq\<close> is the equality test captured by
  the closure, \<open>obs_fn\<close> is the \<open>fn\<close> property (absent on a mutable observable). The
  \<open>level\<close> of a mutable observable is never assigned; it is only ever read as
  \<open>obsDepcy.level | 0\<close>, that is as \<open>0\<close>, which is what the field holds here. Levels stay
  far below \<open>2^31\<close>, where \<open>| 0\<close> is the identity.
\<close>

record 'v obs =
  obs_value :: "'v jsval"
  obs_eq :: "'v jsval \<Rightarrow> 'v jsval \<Rightarrow> bool"
  obs_fn :: "'v obsfn option"
  dependencies :: "nat option obj option"
  dependents :: "nat option obj option"
  subscriptions :: "nat list option"
  level :: nat
  isInUpdateQueue :: bool

text \<open>
  The module state. \<open>currentDependencies\<close> is always either \<open>null\<close> or an alias of the
  \<open>dependencies\<close> object of the observable under evaluation (that property is assigned
  once, in \<open>Obs.fn\<close>), so it is represented by the identifier of that observable.
  \<open>reported\<close> collects the arguments of \<open>Obs.exceptionReporter\<close>. The last two fields are
  instrumentation: \<open>evaluated\<close> records each execution of a body (the call \<open>f()\<close> in
  \<open>updateComputedObs\<close>, the call \<open>action()\<close> in a subscription), \<open>dequeued\<close> records what
  the \<open>trace\<close> call in \<open>dequeueUpdate\<close> prints, together with the level of the observable.
\<close>

record 'v obs_state =
  store :: "nat \<Rightarrow> 'v obs"
  nextID :: nat
  updateQ :: "nat list"
  updateDepth :: nat
  currentDependencies :: "nat option"
  reported :: "string list"
  evaluated :: "nat list"
  dequeued :: "(nat \<times> nat) list"

text \<open>
  What a call does: it returns a value, or it throws, in both cases leaving a state
  behind; \<open>Diverges\<close> says that the fuel given to \<open>processUpdateQueue\<close> ran out.
\<close>

datatype ('a, 's) outcome = Returns 'a 's | Throws string 's | Diverges

definition upd_obs :: "nat \<Rightarrow> ('v obs \<Rightarrow> 'v obs) \<Rightarrow> 'v obs_state \<Rightarrow> 'v obs_state" where
  "upd_obs i f s = s\<lparr>store := (store s)(i := f (store s i))\<rparr>"

definition defaultEq :: "'v jsval \<Rightarrow> 'v jsval \<Rightarrow> bool" where
  "defaultEq x y = (x = y)"

text \<open>
  \<open>Obs.valueOfEq\<close>, on integer values: \<open>(x && y && x.valueOf() === y.valueOf()) ||
  (!x && !y)\<close>. The falsy values are \<open>undefined\<close>, \<open>null\<close>, the empty string and \<open>0\<close>.
\<close>

fun truthy :: "int jsval \<Rightarrow> bool" where
  "truthy Undefined = False"
| "truthy Null = False"
| "truthy (Str t) = (t \<noteq> [])"
| "truthy (Val n) = (n \<noteq> 0)"

definition valueOfEq :: "int jsval \<Rightarrow> int jsval \<Rightarrow> bool" where
  "valueOfEq x y = ((truthy x \<and> truthy y \<and> x = y) \<or> (\<not> truthy x \<and> \<not> truthy y))"

definition alwaysUpdate :: "'v jsval \<Rightarrow> 'v jsval \<Rightarrow> bool" where
  "alwaysUpdate x y = False"

subsection \<open>Reading\<close>

definition Obs_peek :: "'v obs_state \<Rightarrow> nat \<Rightarrow> 'v jsval" where
  "Obs_peek s obs = obs_value (store s obs)"

text \<open>
  The read branch of \<open>readOrWriteObs\<close> (\<open>argc = 0\<close>): record the observable in
  \<open>currentDependencies\<close>, if there is one, and return the value.
\<close>

definition readObs :: "nat \<Rightarrow> 'v obs_state \<Rightarrow> 'v jsval \<times> 'v obs_state" where
  "readObs obs s =
     (let s1 = (case currentDependencies s of
                  None \<Rightarrow> s
                | Some c \<Rightarrow> upd_obs c (\<lambda>ob. ob\<lparr>dependencies :=
                               map_option (obj_set obs (Some obs)) (dependencies ob)\<rparr>) s)
      in (obs_value (store s1 obs), s1))"

primrec run_body :: "'v body \<Rightarrow> 'v obs_state \<Rightarrow> ('v jsval, 'v obs_state) outcome" where
  "run_body (Return v) s = Returns v s"
| "run_body (Throw e) s = Throws e s"
| "run_body (Read x k) s = (case readObs x s of (v, s1) \<Rightarrow> run_body (k v) s1)"
| "run_body (Peek x k) s = run_body (k (Obs_peek s x)) s"

subsection \<open>The update queue\<close>

text \<open>
  The two loops of the binary heap, on the array \<open>updateQ\<close>. \<open>lv\<close> reads the level of an
  observable. In \<open>enqueue_loop\<close> the parent of index \<open>i\<close> is \<open>i >> 1\<close>. In \<open>dequeue_loop\<close>
  the variable \<open>j\<close> is \<open>1\<close> on entry (\<open>i = 0\<close>) and \<open>i << 1\<close> after every iteration
  (\<open>i > 0\<close> from then on), so it is computed from \<open>i\<close>. All indices used are inside the
  array.
\<close>

fun enqueue_loop :: "(nat \<Rightarrow> nat) \<Rightarrow> nat \<Rightarrow> nat list \<Rightarrow> nat \<Rightarrow> nat list \<times> nat" where
  "enqueue_loop lv levelI q i =
     (if i = 0 then (q, i)
      else let j = i div 2; obsJ = q ! j; levelJ = lv obsJ in
        if levelJ \<le> levelI then (q, i)
        else enqueue_loop lv levelI (q[i := obsJ]) j)"

function dequeue_loop ::
  "(nat \<Rightarrow> nat) \<Rightarrow> nat \<Rightarrow> nat \<Rightarrow> nat list \<Rightarrow> nat \<Rightarrow> nat list \<times> nat" where
  "dequeue_loop lv levelI n q i =
     (let j = (if i = 0 then 1 else 2 * i) in
      if j < n then
        let k = min (j + 1) (n - 1); objJ = q ! j; objK = q ! k;
            levelJ = lv objJ; levelK = lv objK in
        if levelJ \<le> levelK then
          (if levelI \<le> levelJ then (q, i) else dequeue_loop lv levelI n (q[i := objJ]) j)
        else
          (if levelI \<le> levelK then (q, i) else dequeue_loop lv levelI n (q[i := objK]) k)
      else (q, i))"
  by pat_completeness auto
termination
  by (relation "measure (\<lambda>(lv, levelI, n, q, i). n - i)") (auto simp: min_def split: if_splits)

text \<open>The array operations of \<open>enqueueUpdate\<close> and \<open>dequeueUpdate\<close>.\<close>

definition heap_push :: "(nat \<Rightarrow> nat) \<Rightarrow> nat \<Rightarrow> nat list \<Rightarrow> nat list" where
  "heap_push lv obs q =
     (let i = length q;
          q1 = q @ [obs];
          levelI = lv obs;
          (q2, i2) = enqueue_loop lv levelI q1 i
      in q2[i2 := obs])"

definition heap_pop :: "(nat \<Rightarrow> nat) \<Rightarrow> nat list \<Rightarrow> nat list" where
  "heap_pop lv q =
     (let obsI = last q;
          q1 = butlast q;
          levelI = lv obsI;
          n = length q1
      in if n = 0 then q1
         else let (q2, i) = dequeue_loop lv levelI n q1 0 in q2[i := obsI])"

definition enqueueUpdate :: "nat \<Rightarrow> 'v obs_state \<Rightarrow> 'v obs_state" where
  "enqueueUpdate obs s =
     (if isInUpdateQueue (store s obs) then s
      else let s1 = upd_obs obs (\<lambda>ob. ob\<lparr>isInUpdateQueue := True\<rparr>) s
           in s1\<lparr>updateQ := heap_push (\<lambda>x. level (store s1 x)) obs (updateQ s1)\<rparr>)"

definition dequeueUpdate :: "'v obs_state \<Rightarrow> nat option \<times> 'v obs_state" where
  "dequeueUpdate s =
     (if updateQ s = [] then (None, s)
      else let obs = updateQ s ! 0;
               s1 = upd_obs obs (\<lambda>ob. ob\<lparr>isInUpdateQueue := False\<rparr>) s;
               s2 = s1\<lparr>dequeued := dequeued s1 @ [(obs, level (store s1 obs))]\<rparr>
           in (Some obs, s2\<lparr>updateQ := heap_pop (\<lambda>x. level (store s2 x)) (updateQ s2)\<rparr>))"

definition startUpdate :: "'v obs_state \<Rightarrow> 'v obs_state" where
  "startUpdate s = s\<lparr>updateDepth := updateDepth s + 1\<rparr>"

subsection \<open>Dependency links\<close>

text \<open>
  \<open>breakDependencies\<close>: the loop runs over the properties of \<open>obs.dependencies\<close>; its body
  only overwrites the property it is visiting, so the values met are those of the object
  on entry. Assigning to \<open>obsDepcy.dependents[obsID]\<close> when \<open>obsDepcy.dependents\<close> is
  undefined is a \<open>TypeError\<close>.
\<close>

fun breakDependencies_loop ::
  "nat \<Rightarrow> (nat \<times> nat option) list \<Rightarrow> 'v obs_state \<Rightarrow> (unit, 'v obs_state) outcome" where
  "breakDependencies_loop obsID [] s = Returns () s"
| "breakDependencies_loop obsID ((i, None) # rest) s = breakDependencies_loop obsID rest s"
| "breakDependencies_loop obsID ((i, Some obsDepcy) # rest) s =
     (let s1 = upd_obs obsID (\<lambda>ob. ob\<lparr>dependencies :=
                  map_option (obj_set i None) (dependencies ob)\<rparr>) s
      in case dependents (store s1 obsDepcy) of
           None \<Rightarrow> Throws ''TypeError'' s1
         | Some ds \<Rightarrow> breakDependencies_loop obsID rest
             (upd_obs obsDepcy (\<lambda>ob. ob\<lparr>dependents := Some (obj_set obsID None ds)\<rparr>) s1))"

definition breakDependencies :: "nat \<Rightarrow> 'v obs_state \<Rightarrow> (unit, 'v obs_state) outcome" where
  "breakDependencies obs s =
     (case dependencies (store s obs) of
        None \<Rightarrow> Returns () s
      | Some deps \<Rightarrow> breakDependencies_loop obs deps s)"

fun establishDependencies_loop ::
  "nat \<Rightarrow> (nat \<times> nat option) list \<Rightarrow> nat \<Rightarrow> 'v obs_state \<Rightarrow> nat \<times> 'v obs_state" where
  "establishDependencies_loop obsID [] obsLevel s = (obsLevel, s)"
| "establishDependencies_loop obsID ((i, None) # rest) obsLevel s =
     establishDependencies_loop obsID rest obsLevel s"
| "establishDependencies_loop obsID ((i, Some obsDepcy) # rest) obsLevel s =
     (let s1 = (if dependents (store s obsDepcy) = None
                then upd_obs obsDepcy (\<lambda>ob. ob\<lparr>dependents := Some []\<rparr>) s else s);
          s2 = upd_obs obsDepcy (\<lambda>ob. ob\<lparr>dependents :=
                 map_option (obj_set obsID (Some obsID)) (dependents ob)\<rparr>) s1;
          obsDepcyLevel = level (store s2 obsDepcy)
      in establishDependencies_loop obsID rest
           (if obsLevel \<le> obsDepcyLevel then 1 + obsDepcyLevel else obsLevel) s2)"

definition establishDependencies :: "nat \<Rightarrow> 'v obs_state \<Rightarrow> 'v obs_state" where
  "establishDependencies obs s =
     (let deps = (case dependencies (store s obs) of None \<Rightarrow> [] | Some d \<Rightarrow> d);
          (obsLevel, s1) = establishDependencies_loop obs deps 0 s
      in upd_obs obs (\<lambda>ob. ob\<lparr>level := obsLevel\<rparr>) s1)"

subsection \<open>Re-evaluation\<close>

definition updateComputedObs ::
  "nat \<Rightarrow> 'v body \<Rightarrow> 'v obs_state \<Rightarrow> (bool, 'v obs_state) outcome" where
  "updateComputedObs obs f s =
     (let oldX = obs_value (store s obs);
          s1 = s\<lparr>evaluated := evaluated s @ [obs]\<rparr>
      in case run_body f s1 of
           Returns newX s2 \<Rightarrow>
             Returns (\<not> obs_eq (store s2 obs) oldX newX)
                     (upd_obs obs (\<lambda>ob. ob\<lparr>obs_value := newX\<rparr>) s2)
         | Throws e s2 \<Rightarrow> Throws e s2
         | Diverges \<Rightarrow> Diverges)"

text \<open>
  \<open>subsAction\<close>, the \<open>fn\<close> of a subscription: the action runs with dependency tracking
  suspended; the function returns nothing, which the caller takes as "unchanged".
\<close>

definition subsAction :: "nat \<Rightarrow> 'v body \<Rightarrow> 'v obs_state \<Rightarrow> (bool, 'v obs_state) outcome" where
  "subsAction obs action s =
     (let tmp = currentDependencies s;
          s1 = s\<lparr>currentDependencies := None, evaluated := evaluated s @ [obs]\<rparr>
      in case run_body action s1 of
           Returns r s2 \<Rightarrow> Returns False (s2\<lparr>currentDependencies := tmp\<rparr>)
         | Throws e s2 \<Rightarrow> Throws e s2
         | Diverges \<Rightarrow> Diverges)"

definition exceptionReporter :: "string \<Rightarrow> 'v obs_state \<Rightarrow> 'v obs_state" where
  "exceptionReporter e s = s\<lparr>reported := reported s @ [e]\<rparr>"

definition tryReevaluateObsFn :: "nat \<Rightarrow> 'v obs_state \<Rightarrow> (bool, 'v obs_state) outcome" where
  "tryReevaluateObsFn obs s =
     (case (case obs_fn (store s obs) of
              None \<Rightarrow> Throws ''TypeError'' s
            | Some (Computed f) \<Rightarrow> updateComputedObs obs f s
            | Some (Subscription action) \<Rightarrow> subsAction obs action s) of
        Returns hasChanged s1 \<Rightarrow> Returns hasChanged s1
      | Throws e s1 \<Rightarrow> Returns False (exceptionReporter e s1)
      | Diverges \<Rightarrow> Diverges)"

text \<open>
  \<open>processUpdateQueue\<close> is a \<open>while (true)\<close> loop, and it is re-entered through
  \<open>reevaluateComputedObs\<close>, \<open>Obs.updateDependents\<close> and \<open>Obs.endUpdate\<close>; with a cyclic
  dependency graph it need not stop. Each iteration of the loop takes one unit of fuel.
\<close>

fun processUpdateQueue :: "nat \<Rightarrow> 'v obs_state \<Rightarrow> (unit, 'v obs_state) outcome"
and reevaluateComputedObs :: "nat \<Rightarrow> nat \<Rightarrow> 'v obs_state \<Rightarrow> (unit, 'v obs_state) outcome"
and updateDependents :: "nat \<Rightarrow> nat \<Rightarrow> 'v obs_state \<Rightarrow> (unit, 'v obs_state) outcome"
and endUpdate :: "nat \<Rightarrow> 'v obs_state \<Rightarrow> (unit, 'v obs_state) outcome"
where
  "processUpdateQueue 0 s = Diverges"
| "processUpdateQueue (Suc fuel) s =
     (case dequeueUpdate s of
        (None, s1) \<Rightarrow> Returns () s1
      | (Some obs, s1) \<Rightarrow>
          (case reevaluateComputedObs fuel obs s1 of
             Returns u s2 \<Rightarrow> processUpdateQueue fuel s2
           | Throws e s2 \<Rightarrow> Throws e s2
           | Diverges \<Rightarrow> Diverges))"
| "reevaluateComputedObs fuel obs s =
     (let oldCurrentDependencies = currentDependencies s;
          s1 = s\<lparr>currentDependencies :=
                 (case dependencies (store s obs) of None \<Rightarrow> None | Some d \<Rightarrow> Some obs)\<rparr>
      in case breakDependencies obs s1 of
           Throws e s2 \<Rightarrow> Throws e s2
         | Diverges \<Rightarrow> Diverges
         | Returns u s2 \<Rightarrow>
             (case tryReevaluateObsFn obs s2 of
                Throws e s3 \<Rightarrow> Throws e s3
              | Diverges \<Rightarrow> Diverges
              | Returns hasChanged s3 \<Rightarrow>
                  (let s4 = establishDependencies obs s3;
                       s5 = s4\<lparr>currentDependencies := oldCurrentDependencies\<rparr>
                   in if hasChanged then updateDependents fuel obs s5 else Returns () s5)))"
| "updateDependents fuel obs s =
     (case dependents (store s obs) of
        None \<Rightarrow> Returns () s
      | Some deps \<Rightarrow>
          endUpdate fuel
            (fold (\<lambda>(i, depdtObs) st. case depdtObs of None \<Rightarrow> st | Some d \<Rightarrow> enqueueUpdate d st)
               deps (startUpdate s)))"
| "endUpdate fuel s =
     (let s1 = (if updateDepth s \<noteq> 0 then s\<lparr>updateDepth := updateDepth s - 1\<rparr> else s)
      in if updateDepth s1 = 0 then processUpdateQueue fuel s1 else Returns () s1)"

subsection \<open>The public interface\<close>

definition Obs_of ::
  "'v jsval \<Rightarrow> ('v jsval \<Rightarrow> 'v jsval \<Rightarrow> bool) \<Rightarrow> 'v obs_state \<Rightarrow> nat \<times> 'v obs_state" where
  "Obs_of x eq s =
     (let i = nextID s
      in (i, s\<lparr>store := (store s)(i :=
                 \<lparr>obs_value = x, obs_eq = eq, obs_fn = None, dependencies = None,
                  dependents = None, subscriptions = None, level = 0,
                  isInUpdateQueue = False\<rparr>),
              nextID := i + 1\<rparr>))"

definition Obs_fn ::
  "nat \<Rightarrow> 'v body \<Rightarrow> ('v jsval \<Rightarrow> 'v jsval \<Rightarrow> bool) \<Rightarrow> 'v obs_state
     \<Rightarrow> (nat, 'v obs_state) outcome" where
  "Obs_fn fuel f eq s =
     (let i = nextID s;
          s1 = s\<lparr>store := (store s)(i :=
                 \<lparr>obs_value = Undefined, obs_eq = eq, obs_fn = Some (Computed f),
                  dependencies = Some [], dependents = None, subscriptions = None,
                  level = 0, isInUpdateQueue = False\<rparr>),
              nextID := i + 1\<rparr>
      in case reevaluateComputedObs fuel i s1 of
           Returns u s2 \<Rightarrow> Returns i s2
         | Throws e s2 \<Rightarrow> Throws e s2
         | Diverges \<Rightarrow> Diverges)"

text \<open>
  \<open>Obs.subscribe\<close>. A subscription has no equality test; the field is filled with the
  default one and never consulted.
\<close>

definition Obs_subscribe :: "nat list \<Rightarrow> 'v body \<Rightarrow> 'v obs_state \<Rightarrow> nat \<times> 'v obs_state" where
  "Obs_subscribe obss action s =
     (let i = nextID s;
          s1 = s\<lparr>nextID := i + 1\<rparr>;
          s2 = fold (\<lambda>obsAnyI st. upd_obs obsAnyI (\<lambda>ob. ob\<lparr>dependents :=
                  Some (obj_set i (Some i)
                    (case dependents ob of None \<Rightarrow> [] | Some d \<Rightarrow> d))\<rparr>) st) obss s1
      in (i, s2\<lparr>store := (store s2)(i :=
                 \<lparr>obs_value = Str ''{subscription}'', obs_eq = defaultEq,
                  obs_fn = Some (Subscription action), dependencies = None,
                  dependents = None, subscriptions = Some obss, level = 999999999,
                  isInUpdateQueue = False\<rparr>)\<rparr>))"

definition Obs_dispose :: "nat \<Rightarrow> 'v obs_state \<Rightarrow> (unit, 'v obs_state) outcome" where
  "Obs_dispose obs s =
     (let s1 = upd_obs obs (\<lambda>ob. ob\<lparr>obs_value := Null\<rparr>) s
      in case breakDependencies obs s1 of
           Throws e s2 \<Rightarrow> Throws e s2
         | Diverges \<Rightarrow> Diverges
         | Returns u s2 \<Rightarrow>
             (let s3 = upd_obs obs (\<lambda>ob. ob\<lparr>dependents := Some []\<rparr>) s2
              in case subscriptions (store s3 obs) of
                   None \<Rightarrow> Returns () s3
                 | Some subs \<Rightarrow>
                     Returns ()
                       (upd_obs obs (\<lambda>ob. ob\<lparr>subscriptions := None\<rparr>)
                          (fold (\<lambda>subscription st.
                                   case dependents (store st subscription) of
                                     None \<Rightarrow> st
                                   | Some d \<Rightarrow> upd_obs subscription
                                       (\<lambda>ob. ob\<lparr>dependents := Some (obj_set obs None d)\<rparr>) st)
                             subs s3))))"

text \<open>
  \<open>readOrWriteObs\<close> is what calling an observable made by \<open>Obs.of\<close> or \<open>Obs.fn\<close> runs:
  \<open>x()\<close> is \<open>readOrWriteObs x None\<close> and \<open>x(v)\<close> is \<open>readOrWriteObs x (Some v)\<close>.
\<close>

definition readOrWriteObs ::
  "nat \<Rightarrow> nat \<Rightarrow> 'v jsval option \<Rightarrow> 'v obs_state \<Rightarrow> ('v jsval, 'v obs_state) outcome" where
  "readOrWriteObs fuel obs arg s =
     (case arg of
        Some newX \<Rightarrow>
          (if obs_fn (store s obs) \<noteq> None
           then Throws ''Computed observables cannot be assigned to.'' s
           else let oldX = obs_value (store s obs);
                    s1 = upd_obs obs (\<lambda>ob. ob\<lparr>obs_value := newX\<rparr>) s
                in if \<not> obs_eq (store s1 obs) oldX newX
                   then (case updateDependents fuel obs s1 of
                           Returns u s2 \<Rightarrow> Returns (obs_value (store s2 obs)) s2
                         | Throws e s2 \<Rightarrow> Throws e s2
                         | Diverges \<Rightarrow> Diverges)
                   else Returns (obs_value (store s1 obs)) s1)
      | None \<Rightarrow> (case readObs obs s of (v, s1) \<Rightarrow> Returns v s1))"

text \<open>The state of the module when it has just been loaded.\<close>

definition init_state :: "'v obs_state" where
  "init_state = \<lparr>store = (\<lambda>i. \<lparr>obs_value = Undefined, obs_eq = defaultEq, obs_fn = None,
       dependencies = None, dependents = None, subscriptions = None, level = 0,
       isInUpdateQueue = False\<rparr>),
     nextID = 1, updateQ = [], updateDepth = 0, currentDependencies = None,
     reported = [], evaluated = [], dequeued = []\<rparr>"


section \<open>Od: reconciliation of children\<close>

subsection \<open>Live nodes and the operations of the document used on a child list\<close>

text \<open>
  A live child of the parent being patched: the identity of the DOM node and its \<open>key\<close>
  property (\<open>None\<close> when \<open>child.key == null\<close>). The state of the parent is the list of its
  children in document order, together with a supply of identities for the nodes made by
  \<open>document.createElement\<close>. Keys are taken as they are: the conversion of a key to a
  property name of \<open>keyToChild\<close> and the properties that object inherits are not modelled.
\<close>

record 'k dom_node =
  node_id :: nat
  node_key :: "'k option"










subsection \<open>Virtual nodes\<close>

text \<open>
  A vDOM node is a patching function with an optional \<open>key\<close> property. \<open>vdom_node\<close> is
  what the patching function does as far as the child list of the parent is concerned:
  from the live node found at the position (if any) and the supply of identities it
  yields the node that is to stand there, either the node found, with the properties it
  has after patching, or another one.
\<close>

record 'k vdom =
  vdom_key :: "'k option"
  vdom_node :: "'k dom_node option \<Rightarrow> nat \<Rightarrow> 'k dom_node \<times> nat"

subsection \<open>reorderKeyedChildren\<close>





subsection \<open>patchChildren\<close>






section \<open>Od: components and their subcomponents\<close>

text \<open>
  The part of \<open>Od.component\<close> and of the disposal functions that keeps the tables of
  subcomponents. A component is addressed by its \<open>componentID\<close>. Of a \<open>ComponentInfo\<close>
  the two tables are kept; the DOM node, the observable and the subscription of the
  component are left out, and so is what \<open>Od.component\<close> does with them after the
  observable has been created. \<open>constructed\<close> records each construction of a component
  (the path of \<open>Od.component\<close> after \<open>nextComponentID++\<close>), \<open>disposed\<close> records each call
  of \<open>disposeComponent\<close> at the point where it disposes of the subscription and of the
  observable.
\<close>

record cmptInfo =
  anonymousSubcomponents :: "nat list"
  namedSubcomponents :: "(string \<times> nat option) list"

record od_state =
  infos :: "nat \<Rightarrow> cmptInfo"
  nextComponentID :: nat
  parentComponentInfo :: "nat option"
  constructed :: "nat list"
  disposed :: "nat list"

text \<open>
  The function \<open>fn\<close> given to \<open>Od.component\<close> builds the vDOM of the component; what
  matters here is which subcomponents it declares on the way: \<open>CFn ds\<close> calls
  \<open>Od.component(name, fn')\<close> for each \<open>(name, fn')\<close> of \<open>ds\<close>, in this order, and the
  components it gets make up its result.
\<close>

datatype cfn = CFn "(string option \<times> cfn) list"

fun named_set :: "string \<Rightarrow> nat option \<Rightarrow> (string \<times> nat option) list \<Rightarrow> (string \<times> nat option) list" where
  "named_set name v [] = [(name, v)]"
| "named_set name v ((name', v') # r) =
     (if name = name' then (name, v) # r else (name', v') # named_set name v r)"

definition existingNamedComponent :: "string option \<Rightarrow> od_state \<Rightarrow> nat option" where
  "existingNamedComponent name s =
     (case (name, parentComponentInfo s) of
        (Some nm, Some p) \<Rightarrow>
          (case map_of (namedSubcomponents (infos s p)) nm of
             None \<Rightarrow> None
           | Some c \<Rightarrow> c)
      | _ \<Rightarrow> None)"

definition upd_info :: "nat \<Rightarrow> (cmptInfo \<Rightarrow> cmptInfo) \<Rightarrow> od_state \<Rightarrow> od_state" where
  "upd_info c f s = s\<lparr>infos := (infos s)(c := f (infos s c))\<rparr>"

text \<open>
  Components nest without bound and the disposal functions follow the tables in the
  state, so the functions take fuel; every call uses one unit, and \<open>None\<close> says that it
  ran out. \<open>Od_dispose\<close> is \<open>Od.dispose\<close> applied to a component or to \<open>null\<close>; the
  \<open>for (name in cmpts)\<close> loop of \<open>disposeNamedSubcomponents\<close> runs over the names that
  the table has on entry (its third argument). \<open>component_obs_fn\<close> is the function that \<open>Od.component\<close> hands to \<open>Obs.fn\<close>:
  \<open>Obs.fn\<close> runs it at once, and the observable runs it again at each re-evaluation of
  the component.
\<close>


fun disposeComponent :: "nat \<Rightarrow> nat \<Rightarrow> od_state \<Rightarrow> od_state option"
and disposeAnonymousSubcomponents :: "nat \<Rightarrow> nat \<Rightarrow> od_state \<Rightarrow> od_state option"
and disposeNamedSubcomponents ::
  "nat \<Rightarrow> nat \<Rightarrow> (string \<times> nat option) list \<Rightarrow> od_state \<Rightarrow> od_state option"
and Od_dispose :: "nat \<Rightarrow> nat option \<Rightarrow> od_state \<Rightarrow> od_state option"
where
  "disposeComponent 0 cmptID s = None"
| "disposeComponent (Suc fuel) cmptID s =
     (case disposeAnonymousSubcomponents fuel cmptID s of
        None \<Rightarrow> None
      | Some s1 \<Rightarrow>
          (case disposeNamedSubcomponents fuel cmptID (namedSubcomponents (infos s1 cmptID)) s1 of
             None \<Rightarrow> None
           | Some s2 \<Rightarrow> Some (s2\<lparr>disposed := disposed s2 @ [cmptID]\<rparr>)))"
| "disposeAnonymousSubcomponents 0 cmptID s = None"
| "disposeAnonymousSubcomponents (Suc fuel) cmptID s =
     (let cmpts = anonymousSubcomponents (infos s cmptID)
      in if cmpts = [] then Some s
         else (let cmpt = last cmpts;
                   s1 = upd_info cmptID (\<lambda>ci. ci\<lparr>anonymousSubcomponents := butlast cmpts\<rparr>) s
               in case Od_dispose fuel (Some cmpt) s1 of
                    None \<Rightarrow> None
                  | Some s2 \<Rightarrow> disposeAnonymousSubcomponents fuel cmptID s2))"
| "disposeNamedSubcomponents 0 cmptID names s = None"
| "disposeNamedSubcomponents (Suc fuel) cmptID [] s = Some s"
| "disposeNamedSubcomponents (Suc fuel) cmptID (nc # names) s =
     (let name = fst nc;
          cmpt = (case map_of (namedSubcomponents (infos s cmptID)) name of
                    None \<Rightarrow> None
                  | Some v \<Rightarrow> v)
      in case Od_dispose fuel cmpt s of
           None \<Rightarrow> None
         | Some s1 \<Rightarrow>
             disposeNamedSubcomponents fuel cmptID names
               (upd_info cmptID (\<lambda>ci. ci\<lparr>namedSubcomponents :=
                  named_set name None (namedSubcomponents ci)\<rparr>) s1))"
| "Od_dispose 0 vdom s = None"
| "Od_dispose (Suc fuel) None s = Some s"
| "Od_dispose (Suc fuel) (Some cmpt) s = disposeComponent fuel cmpt s"

fun Od_component :: "nat \<Rightarrow> string option \<Rightarrow> cfn \<Rightarrow> od_state \<Rightarrow> (nat \<times> od_state) option"
and component_obs_fn :: "nat \<Rightarrow> nat \<Rightarrow> cfn \<Rightarrow> od_state \<Rightarrow> (nat list \<times> od_state) option"
and run_fn :: "nat \<Rightarrow> (string option \<times> cfn) list \<Rightarrow> od_state \<Rightarrow> (nat list \<times> od_state) option"
where
  "Od_component 0 name fn s = None"
| "Od_component (Suc fuel) name fn s =
     (case existingNamedComponent name s of
        Some existingCmpt \<Rightarrow> Some (existingCmpt, s)
      | None \<Rightarrow>
          (let cmptID = nextComponentID s;
               s1 = s\<lparr>infos := (infos s)(cmptID :=
                        \<lparr>anonymousSubcomponents = [], namedSubcomponents = []\<rparr>),
                      nextComponentID := cmptID + 1,
                      constructed := constructed s @ [cmptID]\<rparr>;
               s2 = (case parentComponentInfo s1 of
                       None \<Rightarrow> s1
                     | Some p \<Rightarrow>
                         (case name of
                            None \<Rightarrow> upd_info p (\<lambda>ci. ci\<lparr>anonymousSubcomponents :=
                                       anonymousSubcomponents ci @ [cmptID]\<rparr>) s1
                          | Some nm \<Rightarrow> upd_info p (\<lambda>ci. ci\<lparr>namedSubcomponents :=
                                       named_set nm (Some cmptID) (namedSubcomponents ci)\<rparr>) s1))
           in case component_obs_fn fuel cmptID fn s2 of
                None \<Rightarrow> None
              | Some r \<Rightarrow> Some (cmptID, snd r)))"
| "component_obs_fn 0 cmptID fn s = None"
| "component_obs_fn (Suc fuel) cmptID fn s =
     (let oldParentComponentInfo = parentComponentInfo s;
          s1 = s\<lparr>parentComponentInfo := Some cmptID\<rparr>
      in case disposeAnonymousSubcomponents fuel cmptID s1 of
           None \<Rightarrow> None
         | Some s2 \<Rightarrow>
             (case run_fn fuel (case fn of CFn ds \<Rightarrow> ds) s2 of
                None \<Rightarrow> None
              | Some r \<Rightarrow>
                  Some (fst r, (snd r)\<lparr>parentComponentInfo := oldParentComponentInfo\<rparr>)))"
| "run_fn 0 ds s = None"
| "run_fn (Suc fuel) [] s = Some ([], s)"
| "run_fn (Suc fuel) (d # ds) s =
     (case Od_component fuel (fst d) (snd d) s of
        None \<Rightarrow> None
      | Some r1 \<Rightarrow>
          (case run_fn fuel ds (snd r1) of
             None \<Rightarrow> None
           | Some r2 \<Rightarrow> Some (fst r1 # fst r2, snd r2)))"



section \<open>Programs and predicates used in the statements\<close>

text \<open>
  Closing \<open>k\<close> update regions one after the other (\<open>Obs.endUpdate()\<close> called \<open>k\<close> times).
\<close>

fun endUpdates :: "nat \<Rightarrow> nat \<Rightarrow> 'v obs_state \<Rightarrow> (unit, 'v obs_state) outcome" where
  "endUpdates fuel 0 s = Returns () s"
| "endUpdates fuel (Suc k) s =
     (case endUpdate fuel s of
        Returns u s1 \<Rightarrow> endUpdates fuel k s1
      | Throws e s1 \<Rightarrow> Throws e s1
      | Diverges \<Rightarrow> Diverges)"

text \<open>Two functions on integer values, for bodies such as \<open>x() + 1\<close> and \<open>x() + u()\<close>.\<close>

definition succ_val :: "int jsval \<Rightarrow> int jsval" where
  "succ_val x = (case x of Val n \<Rightarrow> Val (n + 1) | _ \<Rightarrow> Null)"

definition add_val :: "int jsval \<Rightarrow> int jsval \<Rightarrow> int jsval" where
  "add_val x y = (case x of Val m \<Rightarrow> (case y of Val n \<Rightarrow> Val (m + n) | _ \<Rightarrow> Null) | _ \<Rightarrow> Null)"

text \<open>
  The state after \<open>var x = Obs.of(1); var u = Obs.fn(() => x() + 1);\<close> in a freshly
  loaded module: \<open>x\<close> has identifier \<open>1\<close> and \<open>u\<close> has identifier \<open>2\<close>.
\<close>

definition one_dependent :: "int obs_state" where
  "one_dependent =
     (case Obs_fn 0 (Read 1 (\<lambda>a. Return (succ_val a))) defaultEq
             (snd (Obs_of (Val 1) defaultEq init_state)) of
        Returns u s \<Rightarrow> s
      | Throws e s \<Rightarrow> s
      | Diverges \<Rightarrow> init_state)"


subsection \<open>The update queue as a heap\<close>















subsection \<open>Children\<close>




subsection \<open>Components\<close>




section \<open>Properties of the observables\<close>

lemmas obs_defs = Obs_of_def Obs_fn_def readOrWriteObs_def upd_obs_def readObs_def Obs_peek_def
  enqueueUpdate_def dequeueUpdate_def startUpdate_def breakDependencies_def
  establishDependencies_def updateComputedObs_def subsAction_def exceptionReporter_def
  tryReevaluateObsFn_def heap_push_def heap_pop_def Obs_dispose_def

lemma one_dependent_facts:
  "obs_fn (store one_dependent 1) = None"
  "dependencies (store one_dependent 1) = None"
  "subscriptions (store one_dependent 1) = None"
  "obs_value (store one_dependent 1) = Val 1"
  "obs_eq (store one_dependent 1) = defaultEq"
  "dependents (store one_dependent 1) = Some [(2, Some 2)]"
  "obs_fn (store one_dependent 2) = Some (Computed (Read 1 (\<lambda>a. Return (succ_val a))))"
  "updateQ one_dependent = []"
  "updateDepth one_dependent = 0"
  by (simp_all add: one_dependent_def obs_defs Let_def init_state_def)

lemma startUpdate_funpow: "(startUpdate ^^ k) s = s\<lparr>updateDepth := updateDepth s + k\<rparr>"
  by (induction k) (simp_all add: startUpdate_def)

lemma endUpdates_inner:
  "k < updateDepth s \<Longrightarrow>
   endUpdates fuel k s = Returns () (s\<lparr>updateDepth := updateDepth s - k\<rparr>)"
  by (induction k arbitrary: s) simp_all

subsection \<open>Diamond-shaped dependencies\<close>

text \<open>
  Claim C1. Take any state of the module outside an update region and with an empty
  update queue. Create a mutable observable \<open>x\<close>, a computed observable \<open>u\<close> whose body
  reads \<open>x\<close> and returns \<open>f\<close> of it, and a computed observable \<open>v\<close> whose body reads \<open>x\<close>
  and \<open>u\<close> and returns \<open>g\<close> of them. Then one assignment to \<open>x\<close> of a value that the
  equality test of \<open>x\<close> tells apart from the old one returns (three units of fuel are
  enough), runs the body of \<open>u\<close> once and then the body of \<open>v\<close> once and no other body,
  and leaves in \<open>v\<close> the value of \<open>g\<close> at the new value of \<open>x\<close> and the new value of \<open>u\<close>.
  This holds for all \<open>f\<close>, \<open>g\<close>, all values and all three equality tests.
\<close>

theorem C1_diamond_evaluates_once:
  assumes "updateQ s = []" and "updateDepth s = 0" and "\<not> eqX a b"
  shows "\<exists>x s1 u s2 v s3 s4.
    Obs_of a eqX s = (x, s1) \<and>
    Obs_fn fuel0 (Read x (\<lambda>p. Return (f p))) eqU s1 = Returns u s2 \<and>
    Obs_fn fuel0 (Read x (\<lambda>p. Read u (\<lambda>q. Return (g p q)))) eqV s2 = Returns v s3 \<and>
    readOrWriteObs (Suc (Suc (Suc fuel))) x (Some b) s3 = Returns b s4 \<and>
    evaluated s4 = evaluated s3 @ [u, v] \<and>
    Obs_peek s4 u = f b \<and> Obs_peek s4 v = g b (f b) \<and> updateQ s4 = []"
  using assms by (simp add: obs_defs Let_def)

theorem C1_witness:
  "updateQ (init_state :: int obs_state) = [] \<and>
   updateDepth (init_state :: int obs_state) = 0 \<and>
   \<not> defaultEq (Val (1 :: int)) (Val 5) \<and>
   (\<exists>x s1 u s2 v s3 s4.
      Obs_of (Val 1) defaultEq (init_state :: int obs_state) = (x, s1) \<and>
      Obs_fn 0 (Read x (\<lambda>p. Return (succ_val p))) defaultEq s1 = Returns u s2 \<and>
      Obs_fn 0 (Read x (\<lambda>p. Read u (\<lambda>q. Return (add_val p q)))) defaultEq s2 = Returns v s3 \<and>
      readOrWriteObs (Suc (Suc (Suc 0))) x (Some (Val 5)) s3 = Returns (Val 5) s4 \<and>
      evaluated s4 = evaluated s3 @ [u, v] \<and>
      Obs_peek s4 u = succ_val (Val 5) \<and> Obs_peek s4 v = add_val (Val 5) (succ_val (Val 5)) \<and>
      updateQ s4 = [])"
proof (intro conjI)
  show h1: "updateQ (init_state :: int obs_state) = []" by (simp add: init_state_def)
  show h2: "updateDepth (init_state :: int obs_state) = 0" by (simp add: init_state_def)
  show h3: "\<not> defaultEq (Val (1 :: int)) (Val 5)" by (simp add: defaultEq_def)
  show "\<exists>x s1 u s2 v s3 s4.
      Obs_of (Val 1) defaultEq (init_state :: int obs_state) = (x, s1) \<and>
      Obs_fn 0 (Read x (\<lambda>p. Return (succ_val p))) defaultEq s1 = Returns u s2 \<and>
      Obs_fn 0 (Read x (\<lambda>p. Read u (\<lambda>q. Return (add_val p q)))) defaultEq s2 = Returns v s3 \<and>
      readOrWriteObs (Suc (Suc (Suc 0))) x (Some (Val 5)) s3 = Returns (Val 5) s4 \<and>
      evaluated s4 = evaluated s3 @ [u, v] \<and>
      Obs_peek s4 u = succ_val (Val 5) \<and> Obs_peek s4 v = add_val (Val 5) (succ_val (Val 5)) \<and>
      updateQ s4 = []"
    by (rule C1_diamond_evaluates_once
          [where s = "init_state :: int obs_state" and eqX = defaultEq and a = "Val 1"
             and b = "Val 5", OF h1 h2 h3])
qed

subsection \<open>Assigning to a computed observable\<close>

text \<open>
  Claim C3. Calling a computed observable with an argument throws, whatever the
  argument, the state and the fuel; the state in which the exception leaves the module is
  the state before the call, so the value and the dependency links of the observable
  (and everything else) are as they were.
\<close>

theorem C3_computed_write_throws:
  assumes "obs_fn (store s obs) = Some (Computed f)"
  shows "readOrWriteObs fuel obs (Some newX) s =
           Throws ''Computed observables cannot be assigned to.'' s"
  using assms by (simp add: readOrWriteObs_def)

theorem C3_witness:
  "obs_fn (store one_dependent 2) = Some (Computed (Read 1 (\<lambda>a. Return (succ_val a)))) \<and>
   readOrWriteObs 0 2 (Some (Val 7)) one_dependent =
     Throws ''Computed observables cannot be assigned to.'' one_dependent"
proof (intro conjI)
  show h: "obs_fn (store one_dependent 2) = Some (Computed (Read 1 (\<lambda>a. Return (succ_val a))))"
    by (rule one_dependent_facts(7))
  show "readOrWriteObs 0 2 (Some (Val 7)) one_dependent =
     Throws ''Computed observables cannot be assigned to.'' one_dependent"
    by (rule C3_computed_write_throws [OF h])
qed

subsection \<open>Assigning a value that the equality test takes for the old one\<close>

text \<open>
  Claim C4, as stated, fails: the assignment stores the new value before the equality
  test is consulted. With \<open>Obs.valueOfEq\<close>, for which \<open>0\<close> and \<open>null\<close> are equal, the
  observable made by \<open>Obs.of(0, Obs.valueOfEq)\<close> holds \<open>0\<close>; after \<open>x(null)\<close> nothing has
  been scheduled or evaluated, but peeking and reading \<open>x\<close> give \<open>null\<close>.
\<close>

theorem C4_counterexample:
  "valueOfEq (Val 0) Null \<and>
   (case Obs_of (Val 0) valueOfEq (init_state :: int obs_state) of
      (x, s) \<Rightarrow>
        obs_fn (store s x) = None \<and> Obs_peek s x = Val 0 \<and>
        (case readOrWriteObs 0 x (Some Null) s of
           Returns r s' \<Rightarrow>
             updateQ s' = updateQ s \<and> evaluated s' = evaluated s \<and>
             Obs_peek s' x = Null \<and> fst (readObs x s') = Null \<and> Obs_peek s' x \<noteq> Obs_peek s x
         | Throws e s' \<Rightarrow> False
         | Diverges \<Rightarrow> False))"
  by (simp add: valueOfEq_def obs_defs Let_def init_state_def)

text \<open>
  Claim C4, amended. Assigning to a mutable observable a value that its equality test
  takes for the current one returns without fuel and changes one thing only: the value
  stored, which is now the value assigned (the one that reads and peeks return from then
  on). The update queue, the \<open>isInUpdateQueue\<close> marks, the dependency links, the depth of
  the update regions and the record of evaluations are as before, so no dependent has been
  scheduled.
\<close>

theorem C4_equal_write_only_stores:
  assumes "obs_fn (store s obs) = None"
    and "obs_eq (store s obs) (obs_value (store s obs)) newX"
  shows "\<exists>s'. readOrWriteObs fuel obs (Some newX) s = Returns newX s' \<and>
    s' = upd_obs obs (\<lambda>ob. ob\<lparr>obs_value := newX\<rparr>) s \<and>
    Obs_peek s' obs = newX \<and> fst (readObs obs s') = newX \<and>
    updateQ s' = updateQ s \<and> updateDepth s' = updateDepth s \<and> evaluated s' = evaluated s \<and>
    (\<forall>x. isInUpdateQueue (store s' x) = isInUpdateQueue (store s x)) \<and>
    (\<forall>x. dependents (store s' x) = dependents (store s x))"
  using assms
  by (cases "currentDependencies s") (simp_all add: readOrWriteObs_def upd_obs_def readObs_def Obs_peek_def)

theorem C4_witness:
  "obs_fn (store one_dependent 1) = None \<and>
   obs_eq (store one_dependent 1) (obs_value (store one_dependent 1)) (Val 1) \<and>
   (\<exists>s'. readOrWriteObs 0 1 (Some (Val 1)) one_dependent = Returns (Val 1) s' \<and>
    s' = upd_obs 1 (\<lambda>ob. ob\<lparr>obs_value := Val 1\<rparr>) one_dependent \<and>
    Obs_peek s' 1 = Val 1 \<and> fst (readObs 1 s') = Val 1 \<and>
    updateQ s' = updateQ one_dependent \<and> updateDepth s' = updateDepth one_dependent \<and>
    evaluated s' = evaluated one_dependent \<and>
    (\<forall>x. isInUpdateQueue (store s' x) = isInUpdateQueue (store one_dependent x)) \<and>
    (\<forall>x. dependents (store s' x) = dependents (store one_dependent x)))"
proof (intro conjI)
  show h1: "obs_fn (store one_dependent 1) = None"
    by (rule one_dependent_facts(1))
  show h2: "obs_eq (store one_dependent 1) (obs_value (store one_dependent 1)) (Val 1)"
    by (simp only: one_dependent_facts(4,5) defaultEq_def)
  show "\<exists>s'. readOrWriteObs 0 1 (Some (Val 1)) one_dependent = Returns (Val 1) s' \<and>
    s' = upd_obs 1 (\<lambda>ob. ob\<lparr>obs_value := Val 1\<rparr>) one_dependent \<and>
    Obs_peek s' 1 = Val 1 \<and> fst (readObs 1 s') = Val 1 \<and>
    updateQ s' = updateQ one_dependent \<and> updateDepth s' = updateDepth one_dependent \<and>
    evaluated s' = evaluated one_dependent \<and>
    (\<forall>x. isInUpdateQueue (store s' x) = isInUpdateQueue (store one_dependent x)) \<and>
    (\<forall>x. dependents (store s' x) = dependents (store one_dependent x))"
    by (rule C4_equal_write_only_stores [OF h1 h2])
qed

subsection \<open>Update regions\<close>

text \<open>
  Claim C5. Take any state outside an update region with an empty update queue, two
  mutable observables \<open>x\<close> and \<open>y\<close> and a computed observable \<open>u\<close> whose body reads both.
  Open \<open>n + 1\<close> nested update regions, assign to \<open>x\<close> and to \<open>y\<close> values that their equality
  tests tell apart from the old ones, and close the regions. The two assignments return
  without running any body, closing the \<open>n\<close> inner regions runs no body either, and
  closing the outermost region runs the body of \<open>u\<close> once, after which \<open>u\<close> holds the
  value computed from both new values.
\<close>

theorem C5_batch_evaluates_once:
  assumes "updateQ s = []" and "updateDepth s = 0" and "\<not> eqX a a'" and "\<not> eqY b b'"
  shows "\<exists>x s1 y s2 u s3 s4 s5 s6 s7.
    Obs_of a eqX s = (x, s1) \<and> Obs_of b eqY s1 = (y, s2) \<and>
    Obs_fn fuel0 (Read x (\<lambda>p. Read y (\<lambda>q. Return (h p q)))) eqU s2 = Returns u s3 \<and>
    readOrWriteObs fuel1 x (Some a') ((startUpdate ^^ Suc n) s3) = Returns a' s4 \<and>
    readOrWriteObs fuel2 y (Some b') s4 = Returns b' s5 \<and>
    evaluated s5 = evaluated s3 \<and>
    endUpdates fuel3 n s5 = Returns () s6 \<and> evaluated s6 = evaluated s3 \<and>
    endUpdate (Suc (Suc fuel)) s6 = Returns () s7 \<and>
    evaluated s7 = evaluated s3 @ [u] \<and> Obs_peek s7 u = h a' b' \<and> updateQ s7 = []"
  using assms
  by (simp add: obs_defs Let_def startUpdate_funpow endUpdates_inner)

theorem C5_witness:
  "updateQ (init_state :: int obs_state) = [] \<and>
   updateDepth (init_state :: int obs_state) = 0 \<and>
   \<not> defaultEq (Val (123 :: int)) (Val 111) \<and>
   \<not> defaultEq (Val (234 :: int)) (Val 222) \<and>
   (\<exists>x s1 y s2 u s3 s4 s5 s6 s7.
    Obs_of (Val 123) defaultEq (init_state :: int obs_state) = (x, s1) \<and>
    Obs_of (Val 234) defaultEq s1 = (y, s2) \<and>
    Obs_fn 0 (Read x (\<lambda>p. Read y (\<lambda>q. Return (add_val p q)))) defaultEq s2 = Returns u s3 \<and>
    readOrWriteObs 0 x (Some (Val 111)) ((startUpdate ^^ Suc 1) s3) = Returns (Val 111) s4 \<and>
    readOrWriteObs 0 y (Some (Val 222)) s4 = Returns (Val 222) s5 \<and>
    evaluated s5 = evaluated s3 \<and>
    endUpdates 0 1 s5 = Returns () s6 \<and> evaluated s6 = evaluated s3 \<and>
    endUpdate (Suc (Suc 0)) s6 = Returns () s7 \<and>
    evaluated s7 = evaluated s3 @ [u] \<and> Obs_peek s7 u = add_val (Val 111) (Val 222) \<and>
    updateQ s7 = [])"
proof (intro conjI)
  show h1: "updateQ (init_state :: int obs_state) = []" by (simp add: init_state_def)
  show h2: "updateDepth (init_state :: int obs_state) = 0" by (simp add: init_state_def)
  show h3: "\<not> defaultEq (Val (123 :: int)) (Val 111)" by (simp add: defaultEq_def)
  show h4: "\<not> defaultEq (Val (234 :: int)) (Val 222)" by (simp add: defaultEq_def)
  show "\<exists>x s1 y s2 u s3 s4 s5 s6 s7.
    Obs_of (Val 123) defaultEq (init_state :: int obs_state) = (x, s1) \<and>
    Obs_of (Val 234) defaultEq s1 = (y, s2) \<and>
    Obs_fn 0 (Read x (\<lambda>p. Read y (\<lambda>q. Return (add_val p q)))) defaultEq s2 = Returns u s3 \<and>
    readOrWriteObs 0 x (Some (Val 111)) ((startUpdate ^^ Suc 1) s3) = Returns (Val 111) s4 \<and>
    readOrWriteObs 0 y (Some (Val 222)) s4 = Returns (Val 222) s5 \<and>
    evaluated s5 = evaluated s3 \<and>
    endUpdates 0 1 s5 = Returns () s6 \<and> evaluated s6 = evaluated s3 \<and>
    endUpdate (Suc (Suc 0)) s6 = Returns () s7 \<and>
    evaluated s7 = evaluated s3 @ [u] \<and> Obs_peek s7 u = add_val (Val 111) (Val 222) \<and>
    updateQ s7 = []"
    by (rule C5_batch_evaluates_once
          [where s = "init_state :: int obs_state" and eqX = defaultEq and a = "Val 123"
             and a' = "Val 111" and eqY = defaultEq and b = "Val 234" and b' = "Val 222",
           OF h1 h2 h3 h4])
qed

subsection \<open>A body that throws\<close>

text \<open>
  Claim C6. Take any state outside an update region with an empty update queue, a mutable
  observable \<open>x\<close>, a computed observable \<open>u\<close> whose body reads \<open>x\<close> and throws \<open>e\<close> when
  the value read is bad, a computed observable \<open>d\<close> that depends on \<open>u\<close>, and a computed
  observable \<open>w\<close> that depends on \<open>x\<close>. Assigning a bad value to \<open>x\<close> returns to the caller
  (no exception); \<open>e\<close> has been handed to the exception reporter; \<open>u\<close> keeps the value it
  had and \<open>d\<close> is neither queued nor evaluated; the queue has been drained, and the body of
  \<open>w\<close>, queued behind \<open>u\<close>, has been run.
\<close>

theorem C6_throwing_body_is_contained:
  assumes "updateQ s = []" and "updateDepth s = 0" and "\<not> eqX a a'"
    and "\<not> bad a" and "bad a'"
  shows "\<exists>x s1 u s2 d s3 w s4 s5.
    Obs_of a eqX s = (x, s1) \<and>
    Obs_fn fuel0 (Read x (\<lambda>p. if bad p then Throw e else Return (f p))) eqU s1 = Returns u s2 \<and>
    Obs_fn fuel0 (Read u (\<lambda>q. Return (g q))) eqD s2 = Returns d s3 \<and>
    Obs_fn fuel0 (Read x (\<lambda>p. Return (h p))) eqW s3 = Returns w s4 \<and>
    readOrWriteObs (Suc (Suc (Suc fuel))) x (Some a') s4 = Returns a' s5 \<and>
    reported s5 = reported s4 @ [e] \<and> evaluated s5 = evaluated s4 @ [u, w] \<and>
    Obs_peek s4 u = f a \<and> Obs_peek s5 u = f a \<and> Obs_peek s5 d = g (f a) \<and>
    Obs_peek s5 w = h a' \<and> updateQ s5 = [] \<and> \<not> isInUpdateQueue (store s5 d)"
  using assms
  by (simp add: obs_defs Let_def)

theorem C6_witness:
  "updateQ (init_state :: int obs_state) = [] \<and>
   updateDepth (init_state :: int obs_state) = 0 \<and>
   \<not> defaultEq (Val (1 :: int)) (Val 0) \<and>
   \<not> (\<lambda>p. p = Val (0 :: int)) (Val 1) \<and> (\<lambda>p. p = Val (0 :: int)) (Val 0) \<and>
   (\<exists>x s1 u s2 d s3 w s4 s5.
    Obs_of (Val 1) defaultEq (init_state :: int obs_state) = (x, s1) \<and>
    Obs_fn 0 (Read x (\<lambda>p. if (\<lambda>p. p = Val 0) p then Throw ''division by zero''
                             else Return (succ_val p))) defaultEq s1 = Returns u s2 \<and>
    Obs_fn 0 (Read u (\<lambda>q. Return (succ_val q))) defaultEq s2 = Returns d s3 \<and>
    Obs_fn 0 (Read x (\<lambda>p. Return (add_val p p))) defaultEq s3 = Returns w s4 \<and>
    readOrWriteObs (Suc (Suc (Suc 0))) x (Some (Val 0)) s4 = Returns (Val 0) s5 \<and>
    reported s5 = reported s4 @ [''division by zero''] \<and> evaluated s5 = evaluated s4 @ [u, w] \<and>
    Obs_peek s4 u = succ_val (Val 1) \<and> Obs_peek s5 u = succ_val (Val 1) \<and>
    Obs_peek s5 d = succ_val (succ_val (Val 1)) \<and>
    Obs_peek s5 w = add_val (Val 0) (Val 0) \<and> updateQ s5 = [] \<and>
    \<not> isInUpdateQueue (store s5 d))"
proof (intro conjI)
  show h1: "updateQ (init_state :: int obs_state) = []" by (simp add: init_state_def)
  show h2: "updateDepth (init_state :: int obs_state) = 0" by (simp add: init_state_def)
  show h3: "\<not> defaultEq (Val (1 :: int)) (Val 0)" by (simp add: defaultEq_def)
  show h4: "\<not> (\<lambda>p. p = Val (0 :: int)) (Val 1)" by simp
  show h5: "(\<lambda>p. p = Val (0 :: int)) (Val 0)" by simp
  show "\<exists>x s1 u s2 d s3 w s4 s5.
    Obs_of (Val 1) defaultEq (init_state :: int obs_state) = (x, s1) \<and>
    Obs_fn 0 (Read x (\<lambda>p. if (\<lambda>p. p = Val 0) p then Throw ''division by zero''
                             else Return (succ_val p))) defaultEq s1 = Returns u s2 \<and>
    Obs_fn 0 (Read u (\<lambda>q. Return (succ_val q))) defaultEq s2 = Returns d s3 \<and>
    Obs_fn 0 (Read x (\<lambda>p. Return (add_val p p))) defaultEq s3 = Returns w s4 \<and>
    readOrWriteObs (Suc (Suc (Suc 0))) x (Some (Val 0)) s4 = Returns (Val 0) s5 \<and>
    reported s5 = reported s4 @ [''division by zero''] \<and> evaluated s5 = evaluated s4 @ [u, w] \<and>
    Obs_peek s4 u = succ_val (Val 1) \<and> Obs_peek s5 u = succ_val (Val 1) \<and>
    Obs_peek s5 d = succ_val (succ_val (Val 1)) \<and>
    Obs_peek s5 w = add_val (Val 0) (Val 0) \<and> updateQ s5 = [] \<and>
    \<not> isInUpdateQueue (store s5 d)"
    by (rule C6_throwing_body_is_contained
          [where s = "init_state :: int obs_state" and eqX = defaultEq and a = "Val 1"
             and a' = "Val 0" and bad = "\<lambda>p. p = Val 0", OF h1 h2 h3 h4 h5])
qed


subsection \<open>Disposal\<close>







section \<open>Properties of the update queue\<close>

declare enqueue_loop.simps [simp del] dequeue_loop.simps [simp del]
























section \<open>Properties of the reconciliation of children\<close>











section \<open>Properties of the components\<close>








end
